theory Spec2Isabelle
  imports Complex_Main "HOL-Library.Sublist"
begin

section \<open>Values and effects common to the browser and the server module\<close>

text \<open>
  The repository has three JavaScript modules: the React component \<^verbatim>\<open>App\<close> (the editor
  client), the Express application \<^verbatim>\<open>app\<close>, and the service module that exports
  \<^verbatim>\<open>generateContent\<close>. Strings are byte lists holding the UTF-8 encoding of the
  JavaScript string. A JavaScript value is one of the values below; they are the values
  \<^verbatim>\<open>JSON.parse\<close> can return, and \<^verbatim>\<open>undefined\<close>. A number is given by the real number
  it stands for, the two infinities apart (\<^verbatim>\<open>JSON.parse\<close> returns them for literals
  beyond the range of a double).
\<close>

datatype js_value =
    Undefined
  | Null
  | Boolean bool
  | Number real
  | Infinity
  | NegInfinity
  | Str string
  | Array "js_value list"
  | Object "(string \<times> js_value) list"

text \<open>
  \<^verbatim>\<open>a || b\<close> is \<^verbatim>\<open>a\<close> when \<^verbatim>\<open>a\<close> is truthy and \<^verbatim>\<open>b\<close> otherwise. The falsy values are
  \<^verbatim>\<open>undefined\<close>, \<^verbatim>\<open>null\<close>, \<^verbatim>\<open>false\<close>, zero and the empty string.
\<close>

fun truthy :: "js_value \<Rightarrow> bool" where
  "truthy Undefined = False"
| "truthy Null = False"
| "truthy (Boolean b) = b"
| "truthy (Number x) = (x \<noteq> 0)"
| "truthy Infinity = True"
| "truthy NegInfinity = True"
| "truthy (Str t) = (t \<noteq> [])"
| "truthy (Array vs) = True"
| "truthy (Object kvs) = True"

definition js_or :: "js_value \<Rightarrow> js_value \<Rightarrow> js_value" where
  "js_or a b = (if truthy a then a else b)"

text \<open>
  \<^verbatim>\<open>JSON.parse\<close> belongs to the runtime. Every function that depends on it takes it as
  the parameter \<open>JSON_parse\<close>: the value it returns for a text, or \<open>None\<close> where it
  throws a syntax error.
\<close>

type_synonym json_parse = "string \<Rightarrow> js_value option"

text \<open>
  An HTTP response is its status and the text of its body. A thrown value is an
  \<^verbatim>\<open>Error\<close> object, of which the code reads \<^verbatim>\<open>message\<close> and the optional
  \<^verbatim>\<open>response\<close> that axios attaches.
\<close>

record http_response =
  status :: nat
  body :: string

datatype js_error = JsError (message: string) (response: "http_response option")

datatype console_arg = Val js_value | Err js_error

datatype console_entry = Console_log "console_arg list" | Console_error "console_arg list"

text \<open>
  Each module runs in a process with a console. An effectful computation takes the state
  of its process and returns the state it leaves, together with either the value it
  returns (\<open>Inr\<close>) or the value it throws (\<open>Inl\<close>). For an \<^verbatim>\<open>async\<close> function
  these are the value its promise is fulfilled with and the reason it is rejected with;
  an \<^verbatim>\<open>await\<close> takes what the awaited promise settles to from the environment.
\<close>

record process =
  console :: "console_entry list"

type_synonym ('s, 'a) js = "'s \<Rightarrow> (js_error + 'a) \<times> 's"

definition console_log :: "console_arg list \<Rightarrow> 'a process_scheme \<Rightarrow> 'a process_scheme" where
  "console_log args s = s\<lparr>console := console s @ [Console_log args]\<rparr>"

definition console_error :: "console_arg list \<Rightarrow> 'a process_scheme \<Rightarrow> 'a process_scheme" where
  "console_error args s = s\<lparr>console := console s @ [Console_error args]\<rparr>"

text \<open>
  \<^verbatim>\<open>try { block } catch (error) { handler }\<close>: what the block did to the state before it
  threw stays done, and the handler runs on that state.
\<close>

definition try_catch :: "('s, 'a) js \<Rightarrow> (js_error \<Rightarrow> ('s, 'a) js) \<Rightarrow> ('s, 'a) js" where
  "try_catch block handler s =
     (case block s of
        (Inl error, s') \<Rightarrow> handler error s'
      | (Inr v, s') \<Rightarrow> (Inr v, s'))"

section \<open>The editor client: component \<^verbatim>\<open>App\<close>\<close>

text \<open>
  The component holds two pieces of React state, \<^verbatim>\<open>code\<close> and \<^verbatim>\<open>review\<close>. The
  editor only ever gives strings to \<^verbatim>\<open>setCode\<close>; \<^verbatim>\<open>review\<close> holds whatever value
  \<^verbatim>\<open>setReview\<close> is given. The requests handed to \<^verbatim>\<open>axios.post\<close> are recorded in
  \<open>posted\<close>, each with its URL and its JSON body \<^verbatim>\<open>{code}\<close>.
\<close>

datatype review_request = ReviewRequest (code_field: string)

record client = process +
  code :: string
  review :: js_value
  posted :: "(string \<times> review_request) list"

text \<open>
  The initial values are those given to \<^verbatim>\<open>useState\<close>: for \<^verbatim>\<open>code\<close> a template
  literal of two lines, the second indented by four spaces, and for \<^verbatim>\<open>review\<close> the
  empty string.
  \<^verbatim>\<open>
  const [code, setCode] = useState(`function sum(){
    return 1+1}`)
    const [review, setReview] = useState('')
  \<close>
\<close>

definition App_init :: client where
  "App_init = \<lparr>console = [], code = ''function sum(){\<newline>    return 1+1}'', review = Str '''', posted = []\<rparr>"

definition setCode :: "string \<Rightarrow> client \<Rightarrow> client" where
  "setCode c s = s\<lparr>code := c\<rparr>"

definition setReview :: "js_value \<Rightarrow> client \<Rightarrow> client" where
  "setReview r s = s\<lparr>review := r\<rparr>"

text \<open>
  The network and the review service are the environment of the client: \<open>post url request\<close>
  is what the promise of \<^verbatim>\<open>axios.post(url, request)\<close> settles to, a response or a
  rejection. The call at hand sets no \<^verbatim>\<open>responseType\<close> and no \<^verbatim>\<open>transformResponse\<close>,
  so axios applies its default transformation to the text of the body, also to the
  response an error carries: a text that is not empty and that \<^verbatim>\<open>JSON.parse\<close> accepts
  is replaced by the parsed value, any other text is kept. \<^verbatim>\<open>response.data\<close> is the
  result.
\<close>

type_synonym http = "string \<Rightarrow> review_request \<Rightarrow> js_error + http_response"

definition axios_post :: "http \<Rightarrow> string \<Rightarrow> review_request \<Rightarrow> (client, http_response) js" where
  "axios_post post url request s = (post url request, s\<lparr>posted := posted s @ [(url, request)]\<rparr>)"

definition transformResponse :: "json_parse \<Rightarrow> string \<Rightarrow> js_value" where
  "transformResponse JSON_parse t =
     (if t = [] then Str t
      else case JSON_parse t of
             Some v \<Rightarrow> v
           | None \<Rightarrow> Str t)"

definition data :: "json_parse \<Rightarrow> http_response \<Rightarrow> js_value" where
  "data JSON_parse r = transformResponse JSON_parse (body r)"

text \<open>
  \<^verbatim>\<open>
  async function reviewCode(){
    try {
      console.log('Sending code for review:', code);
      const response = await axios.post("http://localhost:3000/api/ai/get-review", {code});
      setReview(response.data)
    } catch (error) {
      console.error('Error reviewing code:', error.response?.data || error.message);
    }
  }
  \<close>
  \<^verbatim>\<open>error.response?.data\<close> is \<^verbatim>\<open>undefined\<close> when the error has no response.
\<close>

definition reviewCode_try :: "json_parse \<Rightarrow> http \<Rightarrow> (client, unit) js" where
  "reviewCode_try JSON_parse post s =
     (let s1 = console_log [Val (Str ''Sending code for review:''), Val (Str (code s))] s in
      case axios_post post ''http://localhost:3000/api/ai/get-review'' (ReviewRequest (code s)) s1 of
        (Inl error, s2) \<Rightarrow> (Inl error, s2)
      | (Inr response', s2) \<Rightarrow> (Inr (), setReview (data JSON_parse response') s2))"

definition error_detail :: "json_parse \<Rightarrow> js_error \<Rightarrow> js_value" where
  "error_detail JSON_parse error =
     js_or (case response error of
              None \<Rightarrow> Undefined
            | Some r \<Rightarrow> data JSON_parse r)
           (Str (message error))"

definition reviewCode_catch :: "json_parse \<Rightarrow> js_error \<Rightarrow> (client, unit) js" where
  "reviewCode_catch JSON_parse error s =
     (Inr (), console_error [Val (Str ''Error reviewing code:''), Val (error_detail JSON_parse error)] s)"

definition reviewCode :: "json_parse \<Rightarrow> http \<Rightarrow> (client, unit) js" where
  "reviewCode JSON_parse post = try_catch (reviewCode_try JSON_parse post) (reviewCode_catch JSON_parse)"

text \<open>
  What the component renders from its state: the editor shows \<^verbatim>\<open>value={code}\<close> and the
  markdown element has \<^verbatim>\<open>{review}\<close> as its children. Nothing else in the returned
  tree depends on the state.
\<close>

record view =
  editor_value :: string
  markdown_children :: js_value

definition App_render :: "client \<Rightarrow> view" where
  "App_render s = \<lparr>editor_value = code s, markdown_children = review s\<rparr>"

text \<open>
  The two things a user can do: type in the editor (\<^verbatim>\<open>onValueChange={code => setCode(code)}\<close>)
  and click the review element (\<^verbatim>\<open>onClick={reviewCode}\<close>). A click carries what the
  HTTP call of that click settles to.
\<close>

datatype ui_event = Edit string | Click "js_error + http_response"

fun succeeded :: "ui_event \<Rightarrow> bool" where
  "succeeded (Edit c) = False"
| "succeeded (Click (Inl error)) = False"
| "succeeded (Click (Inr r)) = True"

fun ui_step :: "json_parse \<Rightarrow> ui_event \<Rightarrow> client \<Rightarrow> client" where
  "ui_step JSON_parse (Edit c) s = setCode c s"
| "ui_step JSON_parse (Click outcome) s = snd (reviewCode JSON_parse (\<lambda>url request. outcome) s)"

fun ui_run :: "json_parse \<Rightarrow> ui_event list \<Rightarrow> client \<Rightarrow> client" where
  "ui_run JSON_parse [] s = s"
| "ui_run JSON_parse (ev # evs) s = ui_run JSON_parse evs (ui_step JSON_parse ev s)"

text \<open>
  A reading of scalar texts for the examples: on the literals \<^verbatim>\<open>null\<close>, \<^verbatim>\<open>true\<close> and
  \<^verbatim>\<open>false\<close> and on an unsigned decimal integer without a leading zero it returns what
  \<^verbatim>\<open>JSON.parse\<close> returns. It rejects every other text, which is the answer of
  \<^verbatim>\<open>JSON.parse\<close> only where the text is not JSON; the examples use it on texts where
  the two agree.
\<close>

definition digit :: "char \<Rightarrow> nat option" where
  "digit = map_of (zip ''0123456789'' [0, 1, 2, 3, 4, 5, 6, 7, 8, 9])"

fun decimal :: "nat \<Rightarrow> string \<Rightarrow> nat option" where
  "decimal n [] = Some n"
| "decimal n (c # cs) =
     (case digit c of
        None \<Rightarrow> None
      | Some d \<Rightarrow> decimal (10 * n + d) cs)"

definition scalar_reading :: json_parse where
  "scalar_reading t =
     (if t = ''null'' then Some Null
      else if t = ''true'' then Some (Boolean True)
      else if t = ''false'' then Some (Boolean False)
      else if t = [] \<or> (hd t = CHR ''0'' \<and> t \<noteq> ''0'') then None
      else map_option (\<lambda>n. Number (real n)) (decimal 0 t))"

section \<open>The service module: \<^verbatim>\<open>generateContent\<close>\<close>

text \<open>
  \<^verbatim>\<open>
  const model = genAI.getGenerativeModel({
      model: "gemini-2.0-flash",
      systemInstruction: `...`
  });
  \<close>
  The object literal has two keys. The template literal of \<^verbatim>\<open>systemInstruction\<close> is
  \<open>prompt_template\<close> below, line by line, with the escapes of the source resolved
  (a backslash before a backtick or a dollar sign) and every character outside ASCII
  written as the bytes of its UTF-8 encoding.
\<close>

record model_params =
  model :: string
  systemInstruction :: string

definition prompt_template :: string where
  "prompt_template = concat [
    ''\<newline>'',
    ''    You are an expert code reviewer. Analyze code and provide detailed feedback in this format:\<newline>'',
    ''\<newline>'',
    ''    '' @ [CHR 0xF0, CHR 0x9F, CHR 0x93, CHR 0x9D] @ '' SIMPLE CODE PATTERNS\<newline>'',
    ''    ====================\<newline>'',
    ''    Basic patterns for common tasks:\<newline>'',
    ''\<newline>'',
    ''    1'' @ [CHR 0xEF, CHR 0xB8, CHR 0x8F, CHR 0xE2, CHR 0x83, CHR 0xA3] @ '' Array Operations:\<newline>'',
    ''    ```javascript\<newline>'',
    ''    // Filter array\<newline>'',
    ''    const filtered = array.filter(item => condition);\<newline>'',
    ''\<newline>'',
    ''    // Map values\<newline>'',
    ''    const mapped = array.map(item => transform(item));\<newline>'',
    ''\<newline>'',
    ''    // Find item\<newline>'',
    ''    const found = array.find(item => condition);\<newline>'',
    ''\<newline>'',
    ''    // Check existence\<newline>'',
    ''    const exists = array.some(item => condition);\<newline>'',
    ''    ```\<newline>'',
    ''\<newline>'',
    ''    2'' @ [CHR 0xEF, CHR 0xB8, CHR 0x8F, CHR 0xE2, CHR 0x83, CHR 0xA3] @ '' Object Operations:\<newline>'',
    ''    ```javascript\<newline>'',
    ''    // Create object\<newline>'',
    ''    const obj = { key: value };\<newline>'',
    ''\<newline>'',
    ''    // Clone object\<newline>'',
    ''    const clone = { ...obj };\<newline>'',
    ''\<newline>'',
    ''    // Merge objects\<newline>'',
    ''    const merged = { ...obj1, ...obj2 };\<newline>'',
    ''\<newline>'',
    ''    // Get keys/values\<newline>'',
    ''    const keys = Object.keys(obj);\<newline>'',
    ''    const values = Object.values(obj);\<newline>'',
    ''    ```\<newline>'',
    ''\<newline>'',
    ''    3'' @ [CHR 0xEF, CHR 0xB8, CHR 0x8F, CHR 0xE2, CHR 0x83, CHR 0xA3] @ '' String Operations:\<newline>'',
    ''    ```javascript\<newline>'',
    ''    // Split string\<newline>'',
    ''    const parts = str.split(separator);\<newline>'',
    ''\<newline>'',
    ''    // Join array\<newline>'',
    ''    const joined = array.join(separator);\<newline>'',
    ''\<newline>'',
    ''    // Replace text\<newline>'',
    ''    const replaced = str.replace(search, replacement);\<newline>'',
    ''\<newline>'',
    ''    // Template literal\<newline>'',
    ''    const template = `Value: ${value}`;\<newline>'',
    ''    ```\<newline>'',
    ''\<newline>'',
    ''    4'' @ [CHR 0xEF, CHR 0xB8, CHR 0x8F, CHR 0xE2, CHR 0x83, CHR 0xA3] @ '' Basic Functions:\<newline>'',
    ''    ```javascript\<newline>'',
    ''    // Arrow function\<newline>'',
    ''    const add = (a, b) => a + b;\<newline>'',
    ''\<newline>'',
    ''    // Regular function\<newline>'',
    ''    function multiply(a, b) {\<newline>'',
    ''        return a * b;\<newline>'',
    ''    }\<newline>'',
    ''\<newline>'',
    ''    // Async function\<newline>'',
    ''    async function fetchData() {\<newline>'',
    ''        try {\<newline>'',
    ''            return await getData();\<newline>'',
    ''        } catch (error) {\<newline>'',
    ''            console.error(error);\<newline>'',
    ''        }\<newline>'',
    ''    }\<newline>'',
    ''    ```\<newline>'',
    ''\<newline>'',
    ''    5'' @ [CHR 0xEF, CHR 0xB8, CHR 0x8F, CHR 0xE2, CHR 0x83, CHR 0xA3] @ '' Control Flow:\<newline>'',
    ''    ```javascript\<newline>'',
    ''    // If-else\<newline>'',
    ''    if (condition) {\<newline>'',
    ''        doSomething();\<newline>'',
    ''    } else {\<newline>'',
    ''        doOther();\<newline>'',
    ''    }\<newline>'',
    ''\<newline>'',
    ''    // Ternary\<newline>'',
    ''    const result = condition ? valueA : valueB;\<newline>'',
    ''\<newline>'',
    ''    // Switch\<newline>'',
    ''    switch (value) {\<newline>'',
    ''        case 'A': return resultA;\<newline>'',
    ''        case 'B': return resultB;\<newline>'',
    ''        default: return defaultResult;\<newline>'',
    ''    }\<newline>'',
    ''    ```\<newline>'',
    ''\<newline>'',
    ''    6'' @ [CHR 0xEF, CHR 0xB8, CHR 0x8F, CHR 0xE2, CHR 0x83, CHR 0xA3] @ '' Error Handling:\<newline>'',
    ''    ```javascript\<newline>'',
    ''    // Basic try-catch\<newline>'',
    ''    try {\<newline>'',
    ''        doRiskyOperation();\<newline>'',
    ''    } catch (error) {\<newline>'',
    ''        handleError(error);\<newline>'',
    ''    }\<newline>'',
    ''\<newline>'',
    ''    // With finally\<newline>'',
    ''    try {\<newline>'',
    ''        connectToDatabase();\<newline>'',
    ''    } catch (error) {\<newline>'',
    ''        logError(error);\<newline>'',
    ''    } finally {\<newline>'',
    ''        cleanup();\<newline>'',
    ''    }\<newline>'',
    ''    ```\<newline>'',
    ''\<newline>'',
    ''    7'' @ [CHR 0xEF, CHR 0xB8, CHR 0x8F, CHR 0xE2, CHR 0x83, CHR 0xA3] @ '' Promises:\<newline>'',
    ''    ```javascript\<newline>'',
    ''    // Promise chain\<newline>'',
    ''    getData()\<newline>'',
    ''        .then(process)\<newline>'',
    ''        .catch(handleError);\<newline>'',
    ''\<newline>'',
    ''    // Async/await\<newline>'',
    ''    const data = await getData();\<newline>'',
    ''\<newline>'',
    ''    // Promise.all\<newline>'',
    ''    const results = await Promise.all([\<newline>'',
    ''        task1(),\<newline>'',
    ''        task2()\<newline>'',
    ''    ]);\<newline>'',
    ''    ```\<newline>'',
    ''\<newline>'',
    ''    '' @ [CHR 0xF0, CHR 0x9F, CHR 0x93, CHR 0x9D] @ '' CURRENT CODE ANALYSIS\<newline>'',
    ''    =====================\<newline>'',
    ''    Show the code with issue markers:\<newline>'',
    ''    ```javascript\<newline>'',
    ''    // '' @ [CHR 0xF0, CHR 0x9F, CHR 0x9A, CHR 0xAB] @ '' Missing error handling\<newline>'',
    ''    // '' @ [CHR 0xE2, CHR 0x9A, CHR 0xA0, CHR 0xEF, CHR 0xB8, CHR 0x8F] @ '' No input validation\<newline>'',
    ''    function processUserData(data) {\<newline>'',
    ''        const result = data.map(item => item.value);\<newline>'',
    ''        return result;\<newline>'',
    ''    }\<newline>'',
    ''    ```\<newline>'',
    ''\<newline>'',
    ''    '' @ [CHR 0xF0, CHR 0x9F, CHR 0x94, CHR 0x8D] @ '' ISSUES DETECTED\<newline>'',
    ''    ================\<newline>'',
    ''    List all problems:\<newline>'',
    ''    '' @ [CHR 0xE2, CHR 0x9D, CHR 0x8C] @ '' No input validation\<newline>'',
    ''       '' @ [CHR 0xE2, CHR 0x86, CHR 0x92] @ '' Could crash with null/undefined\<newline>'',
    ''    '' @ [CHR 0xE2, CHR 0x9D, CHR 0x8C] @ '' Missing error handling\<newline>'',
    ''       '' @ [CHR 0xE2, CHR 0x86, CHR 0x92] @ '' Silent failures\<newline>'',
    ''    '' @ [CHR 0xE2, CHR 0x9D, CHR 0x8C] @ '' No type checking\<newline>'',
    ''       '' @ [CHR 0xE2, CHR 0x86, CHR 0x92] @ '' Potential runtime errors\<newline>'',
    ''\<newline>'',
    ''    '' @ [CHR 0xF0, CHR 0x9F, CHR 0x8E, CHR 0xAF] @ '' CORRECT CODE PATTERNS\<newline>'',
    ''    =====================\<newline>'',
    ''    Show proper implementation patterns:\<newline>'',
    ''\<newline>'',
    ''    1'' @ [CHR 0xEF, CHR 0xB8, CHR 0x8F, CHR 0xE2, CHR 0x83, CHR 0xA3] @ '' Input Validation Pattern:\<newline>'',
    ''    ```javascript\<newline>'',
    ''    function validateInput(data) {\<newline>'',
    ''        if (!Array.isArray(data)) {\<newline>'',
    ''            throw new TypeError('Input must be an array');\<newline>'',
    ''        }\<newline>'',
    ''        if (data.length === 0) {\<newline>'',
    ''            throw new Error('Input array cannot be empty');\<newline>'',
    ''        }\<newline>'',
    ''        return true;\<newline>'',
    ''    }\<newline>'',
    ''    ```\<newline>'',
    ''\<newline>'',
    ''    2'' @ [CHR 0xEF, CHR 0xB8, CHR 0x8F, CHR 0xE2, CHR 0x83, CHR 0xA3] @ '' Error Handling Pattern:\<newline>'',
    ''    ```javascript\<newline>'',
    ''    try {\<newline>'',
    ''        // Main logic\<newline>'',
    ''    } catch (error) {\<newline>'',
    ''        // Log error\<newline>'',
    ''        console.error('Operation failed:', error);\<newline>'',
    ''        // Rethrow or handle\<newline>'',
    ''        throw new Error('Operation failed: ' + error.message);\<newline>'',
    ''    }\<newline>'',
    ''    ```\<newline>'',
    ''\<newline>'',
    ''    3'' @ [CHR 0xEF, CHR 0xB8, CHR 0x8F, CHR 0xE2, CHR 0x83, CHR 0xA3] @ '' Type Checking Pattern:\<newline>'',
    ''    ```javascript\<newline>'',
    ''    function checkTypes(item) {\<newline>'',
    ''        if (typeof item !== 'object' || item === null) {\<newline>'',
    ''            throw new TypeError('Invalid item type');\<newline>'',
    ''        }\<newline>'',
    ''        if (!Object.hasOwn(item, 'value')) {\<newline>'',
    ''            throw new Error('Item missing required property');\<newline>'',
    ''        }\<newline>'',
    ''    }\<newline>'',
    ''    ```\<newline>'',
    ''\<newline>'',
    ''    '' @ [CHR 0xE2, CHR 0x9C, CHR 0xA8] @ '' IMPROVED COMPLETE CODE\<newline>'',
    ''    ======================\<newline>'',
    ''    ```javascript\<newline>'',
    ''    /**\<newline>'',
    ''     * Process user data with comprehensive error handling\<newline>'',
    ''     * @param {Array} data - Array of user data objects\<newline>'',
    ''     * @returns {Array} Processed values\<newline>'',
    ''     * @throws {Error} If validation fails\<newline>'',
    ''     */\<newline>'',
    ''    function processUserData(data) {\<newline>'',
    ''        // '' @ [CHR 0xF0, CHR 0x9F, CHR 0x94, CHR 0x90] @ '' Input validation\<newline>'',
    ''        validateInput(data);\<newline>'',
    ''\<newline>'',
    ''        try {\<newline>'',
    ''            // '' @ [CHR 0xF0, CHR 0x9F, CHR 0x94, CHR 0x8D] @ '' Process with type checking\<newline>'',
    ''            return data.map(item => {\<newline>'',
    ''                checkTypes(item);\<newline>'',
    ''                return item.value;\<newline>'',
    ''            });\<newline>'',
    ''        } catch (error) {\<newline>'',
    ''            // '' @ [CHR 0xF0, CHR 0x9F, CHR 0x9A, CHR 0xA8] @ '' Error handling\<newline>'',
    ''            console.error('Data processing failed:', error);\<newline>'',
    ''            throw new Error('Failed to process user data: ' + error.message);\<newline>'',
    ''        }\<newline>'',
    ''    }\<newline>'',
    ''\<newline>'',
    ''    // '' @ [CHR 0xF0, CHR 0x9F, CHR 0x93, CHR 0x8B] @ '' Usage example\<newline>'',
    ''    try {\<newline>'',
    ''        const userData = [\<newline>'',
    ''            { value: 'John' },\<newline>'',
    ''            { value: 'Jane' }\<newline>'',
    ''        ];\<newline>'',
    ''        const result = processUserData(userData);\<newline>'',
    ''        console.log('Success:', result);\<newline>'',
    ''    } catch (error) {\<newline>'',
    ''        console.error('Error:', error.message);\<newline>'',
    ''    }\<newline>'',
    ''    ```\<newline>'',
    ''\<newline>'',
    ''    '' @ [CHR 0xF0, CHR 0x9F, CHR 0x93, CHR 0x88] @ '' ADVANTAGES\<newline>'',
    ''    ===========\<newline>'',
    ''    '' @ [CHR 0xE2, CHR 0x9C, CHR 0x85] @ '' Complete input validation\<newline>'',
    ''    '' @ [CHR 0xE2, CHR 0x9C, CHR 0x85] @ '' Comprehensive error handling\<newline>'',
    ''    '' @ [CHR 0xE2, CHR 0x9C, CHR 0x85] @ '' Type safety checks\<newline>'',
    ''    '' @ [CHR 0xE2, CHR 0x9C, CHR 0x85] @ '' Clear documentation\<newline>'',
    ''    '' @ [CHR 0xE2, CHR 0x9C, CHR 0x85] @ '' Usage examples included\<newline>'',
    ''\<newline>'',
    ''    '' @ [CHR 0xE2, CHR 0x9A, CHR 0x96, CHR 0xEF, CHR 0xB8, CHR 0x8F] @ '' TRADE-OFFS\<newline>'',
    ''    ===========\<newline>'',
    ''    '' @ [CHR 0xE2, CHR 0x9A, CHR 0xA0, CHR 0xEF, CHR 0xB8, CHR 0x8F] @ '' More verbose code\<newline>'',
    ''    '' @ [CHR 0xE2, CHR 0x9A, CHR 0xA0, CHR 0xEF, CHR 0xB8, CHR 0x8F] @ '' Additional processing overhead\<newline>'',
    ''    '' @ [CHR 0xE2, CHR 0x9A, CHR 0xA0, CHR 0xEF, CHR 0xB8, CHR 0x8F] @ '' More complex error handling\<newline>'',
    ''    '' @ [CHR 0xE2, CHR 0x9A, CHR 0xA0, CHR 0xEF, CHR 0xB8, CHR 0x8F] @ '' Requires more testing\<newline>'',
    ''\<newline>'',
    ''    '' @ [CHR 0xF0, CHR 0x9F, CHR 0x94, CHR 0xA7] @ '' IMPLEMENTATION GUIDE\<newline>'',
    ''    ====================\<newline>'',
    ''    1. '' @ [CHR 0xF0, CHR 0x9F, CHR 0x93, CHR 0x8C] @ '' Add Validation First\<newline>'',
    ''       '' @ [CHR 0xE2, CHR 0x80, CHR 0xA2] @ '' Implement input checks\<newline>'',
    ''       '' @ [CHR 0xE2, CHR 0x80, CHR 0xA2] @ '' Add type validation\<newline>'',
    ''       '' @ [CHR 0xE2, CHR 0x80, CHR 0xA2] @ '' Handle edge cases\<newline>'',
    ''\<newline>'',
    ''    2. '' @ [CHR 0xF0, CHR 0x9F, CHR 0x9B, CHR 0xA0, CHR 0xEF, CHR 0xB8, CHR 0x8F] @ '' Core Logic\<newline>'',
    ''       '' @ [CHR 0xE2, CHR 0x80, CHR 0xA2] @ '' Process data safely\<newline>'',
    ''       '' @ [CHR 0xE2, CHR 0x80, CHR 0xA2] @ '' Use proper methods\<newline>'',
    ''       '' @ [CHR 0xE2, CHR 0x80, CHR 0xA2] @ '' Maintain immutability\<newline>'',
    ''\<newline>'',
    ''    3. '' @ [CHR 0xF0, CHR 0x9F, CHR 0x9A, CHR 0xA8] @ '' Error Handling\<newline>'',
    ''       '' @ [CHR 0xE2, CHR 0x80, CHR 0xA2] @ '' Catch specific errors\<newline>'',
    ''       '' @ [CHR 0xE2, CHR 0x80, CHR 0xA2] @ '' Log appropriately\<newline>'',
    ''       '' @ [CHR 0xE2, CHR 0x80, CHR 0xA2] @ '' Return clear messages\<newline>'',
    ''\<newline>'',
    ''    '' @ [CHR 0xF0, CHR 0x9F, CHR 0xA7, CHR 0xAA] @ '' TESTING SCENARIOS\<newline>'',
    ''    =================\<newline>'',
    ''    '' @ [CHR 0xE2, CHR 0x9C, CHR 0x93] @ '' Valid input cases:\<newline>'',
    ''      '' @ [CHR 0xE2, CHR 0x80, CHR 0xA2] @ '' Normal array input\<newline>'',
    ''      '' @ [CHR 0xE2, CHR 0x80, CHR 0xA2] @ '' Different data types\<newline>'',
    ''      '' @ [CHR 0xE2, CHR 0x80, CHR 0xA2] @ '' Edge case values\<newline>'',
    ''\<newline>'',
    ''    '' @ [CHR 0xE2, CHR 0x9C, CHR 0x93] @ '' Error cases:\<newline>'',
    ''      '' @ [CHR 0xE2, CHR 0x80, CHR 0xA2] @ '' Null/undefined input\<newline>'',
    ''      '' @ [CHR 0xE2, CHR 0x80, CHR 0xA2] @ '' Invalid array items\<newline>'',
    ''      '' @ [CHR 0xE2, CHR 0x80, CHR 0xA2] @ '' Missing properties\<newline>'',
    ''\<newline>'',
    ''    '' @ [CHR 0xF0, CHR 0x9F, CHR 0x92, CHR 0xA1] @ '' BEST PRACTICES\<newline>'',
    ''    ==============\<newline>'',
    ''    1. '' @ [CHR 0xF0, CHR 0x9F, CHR 0x94, CHR 0x92] @ '' Always validate inputs\<newline>'',
    ''    2. '' @ [CHR 0xF0, CHR 0x9F, CHR 0x9B, CHR 0xA1, CHR 0xEF, CHR 0xB8, CHR 0x8F] @ '' Use try-catch blocks\<newline>'',
    ''    3. '' @ [CHR 0xF0, CHR 0x9F, CHR 0x93, CHR 0x9D] @ '' Document functions\<newline>'',
    ''    4. '' @ [CHR 0xE2, CHR 0x9C, CHR 0xA8] @ '' Include examples\<newline>'',
    ''    5. '' @ [CHR 0xF0, CHR 0x9F, CHR 0xA7, CHR 0xAA] @ '' Write test cases\<newline>'',
    ''\<newline>'',
    ''    Remember:\<newline>'',
    ''    '' @ [CHR 0xE2, CHR 0x80, CHR 0xA2] @ '' '' @ [CHR 0xF0, CHR 0x9F, CHR 0x8E, CHR 0xAF] @ '' Follow the patterns shown\<newline>'',
    ''    '' @ [CHR 0xE2, CHR 0x80, CHR 0xA2] @ '' '' @ [CHR 0xF0, CHR 0x9F, CHR 0x93, CHR 0x9D] @ '' Include documentation\<newline>'',
    ''    '' @ [CHR 0xE2, CHR 0x80, CHR 0xA2] @ '' '' @ [CHR 0xE2, CHR 0x9A, CHR 0xA1] @ '' Consider performance\<newline>'',
    ''    '' @ [CHR 0xE2, CHR 0x80, CHR 0xA2] @ '' '' @ [CHR 0xF0, CHR 0x9F, CHR 0x94, CHR 0x84] @ '' Handle all edge cases\<newline>'',
    ''    '' @ [CHR 0xE2, CHR 0x80, CHR 0xA2] @ '' '' @ [CHR 0xF0, CHR 0x9F, CHR 0x93, CHR 0x9A] @ '' Provide usage examples\<newline>'',
    ''    '']"

definition ai_model :: model_params where
  "ai_model = \<lparr>model = ''gemini-2.0-flash'', systemInstruction = prompt_template\<rparr>"

text \<open>
  The server process holds the module-level constant \<^verbatim>\<open>model\<close> (field \<open>the_model\<close>).
  The generative-language API is the environment of the server: \<open>api_calls\<close> records
  every request that \<^verbatim>\<open>model.generateContent\<close> sends, each made of the parameters of the
  model and the prompt. \<open>api request\<close> is what the promise of the call settles to: a
  rejection, or a result whose \<^verbatim>\<open>response.text()\<close> returns the text or throws (the SDK
  throws there when the response carries no usable candidate).
\<close>

record api_request =
  params :: model_params
  prompt :: string

datatype generate_result = GenerateContentResult (response_text: "js_error + string")

type_synonym api = "api_request \<Rightarrow> js_error + generate_result"

record server = process +
  the_model :: model_params
  api_calls :: "api_request list"

definition server_init :: server where
  "server_init = \<lparr>console = [], the_model = ai_model, api_calls = []\<rparr>"

definition model_generateContent :: "api \<Rightarrow> string \<Rightarrow> (server, generate_result) js" where
  "model_generateContent api p s =
     (let request = \<lparr>params = the_model s, prompt = p\<rparr>
      in (api request, s\<lparr>api_calls := api_calls s @ [request]\<rparr>))"

text \<open>
  \<^verbatim>\<open>
  async function generateContent(prompt) {
      try {
          const result = await model.generateContent(prompt);
          const response = await result.response.text();
          return response;
      } catch (error) {
          console.error('Error generating content:', error);
          throw error;
      }
  }
  \<close>
\<close>

definition generateContent_try :: "api \<Rightarrow> string \<Rightarrow> (server, string) js" where
  "generateContent_try api p s =
     (case model_generateContent api p s of
        (Inl error, s1) \<Rightarrow> (Inl error, s1)
      | (Inr result, s1) \<Rightarrow>
          (case response_text result of
             Inl error \<Rightarrow> (Inl error, s1)
           | Inr response' \<Rightarrow> (Inr response', s1)))"

definition generateContent_catch :: "js_error \<Rightarrow> (server, string) js" where
  "generateContent_catch error s =
     (Inl error, console_error [Val (Str ''Error generating content:''), Err error] s)"

definition generateContent :: "api \<Rightarrow> string \<Rightarrow> (server, string) js" where
  "generateContent api p = try_catch (generateContent_try api p) generateContent_catch"

section \<open>The Express application\<close>

text \<open>
  \<^verbatim>\<open>
  app.use(express.json())
  app.use(cors())

  app.get('/', (req, res) => {
      res.send("hello");
  });

  app.use('/api/ai', aiRoute);
  \<close>
  A request passes the four layers in the order of their registration. A request as it
  arrives is its method, its path, whether its \<^verbatim>\<open>Content-Type\<close> is
  \<^verbatim>\<open>application/json\<close>, and the text of its body when it has one. Bodies are taken to
  be uncompressed, in UTF-8 and within the size limit of the parser.
\<close>

datatype http_method = GET | POST | OPTIONS

record http_request =
  req_method :: http_method
  req_path :: string
  json_content :: bool
  raw_body :: "string option"




text \<open>
  What becomes of a request: a layer sent a response; the body parser refused the request
  and Express answers with the status of the error; a handler threw; or no layer of the
  application took the request and it is left to Express. A handler is given the request
  and \<^verbatim>\<open>req.body\<close> as the parser left it. \<^verbatim>\<open>res.send\<close> answers with status 200 unless
  a status was set. The router \<^verbatim>\<open>aiRoute\<close> comes from a module that is not among the
  sources; it is a parameter of \<open>app\<close>.
\<close>

datatype reply = Reply http_response | Failed nat | Threw js_error | Unmatched

type_synonym handler = "http_request \<Rightarrow> js_value option \<Rightarrow> (server, http_response) js"


definition root_handler :: handler where
  "root_handler req req_body s = (Inr \<lparr>status = 200, body = ''hello''\<rparr>, s)"



text \<open>
  The operations of the server process whose code is among the sources, and a run of
  them from a state of the process.
\<close>

datatype server_op = Generate api string | Root http_request "js_value option"

fun server_step :: "server_op \<Rightarrow> server \<Rightarrow> server" where
  "server_step (Generate api p) s = snd (generateContent api p s)"
| "server_step (Root req req_body) s = snd (root_handler req req_body s)"

fun server_run :: "server_op list \<Rightarrow> server \<Rightarrow> server" where
  "server_run [] s = s"
| "server_run (x # xs) s = server_run xs (server_step x s)"

section \<open>The review operation\<close>

text \<open>
  Modelled from the spec: the handler of \<^verbatim>\<open>POST /api/ai/get-review\<close>, which lives in
  the module \<^verbatim>\<open>./routes/ai.route\<close> that \<^verbatim>\<open>app\<close> requires and which is not among the
  sources. The specification gives it as the operation ReviewCode(code) that invokes the
  generative model client with the submitted code under the fixed template, returns the
  text of the model as it is, and lets a failure of the client propagate. In the sources
  the template is the \<^verbatim>\<open>systemInstruction\<close> of the model object, which
  \<^verbatim>\<open>model.generateContent\<close> sends together with the prompt; so the operation hands the
  code to \<^verbatim>\<open>generateContent\<close> as the prompt.
\<close>

definition ReviewCode :: "api \<Rightarrow> string \<Rightarrow> (server, string) js" where
  "ReviewCode api code_value = generateContent api code_value"

section \<open>What one call of each function does\<close>

lemma reviewCode_rejected:
  assumes "post ''http://localhost:3000/api/ai/get-review'' (ReviewRequest (code s)) = Inl e"
  shows "reviewCode JSON_parse post s =
    (Inr (), s\<lparr>console := console s @
                  [Console_log [Val (Str ''Sending code for review:''), Val (Str (code s))],
                   Console_error [Val (Str ''Error reviewing code:''), Val (error_detail JSON_parse e)]],
                posted := posted s @ [(''http://localhost:3000/api/ai/get-review'', ReviewRequest (code s))]\<rparr>)"
  using assms
  by (simp add: reviewCode_def try_catch_def reviewCode_try_def reviewCode_catch_def
      axios_post_def console_log_def console_error_def)

lemma reviewCode_resolved:
  assumes "post ''http://localhost:3000/api/ai/get-review'' (ReviewRequest (code s)) = Inr r"
  shows "reviewCode JSON_parse post s =
    (Inr (), s\<lparr>console := console s @
                  [Console_log [Val (Str ''Sending code for review:''), Val (Str (code s))]],
                posted := posted s @ [(''http://localhost:3000/api/ai/get-review'', ReviewRequest (code s))],
                review := data JSON_parse r\<rparr>)"
  using assms
  by (simp add: reviewCode_def try_catch_def reviewCode_try_def setReview_def
      axios_post_def console_log_def)

lemma data_unparsed:
  assumes "body r = [] \<or> JSON_parse (body r) = None"
  shows "data JSON_parse r = Str (body r)"
  using assms by (auto simp: data_def transformResponse_def)

lemma data_parsed:
  assumes "body r \<noteq> []" and "JSON_parse (body r) = Some v"
  shows "data JSON_parse r = v"
  using assms by (simp add: data_def transformResponse_def)

lemma generateContent_rejected:
  assumes "api \<lparr>params = the_model s, prompt = p\<rparr> = Inl e"
  shows "generateContent api p s =
    (Inl e, s\<lparr>api_calls := api_calls s @ [\<lparr>params = the_model s, prompt = p\<rparr>],
               console := console s @ [Console_error [Val (Str ''Error generating content:''), Err e]]\<rparr>)"
  using assms
  by (simp add: generateContent_def try_catch_def generateContent_try_def generateContent_catch_def
      model_generateContent_def console_error_def)

lemma generateContent_no_text:
  assumes "api \<lparr>params = the_model s, prompt = p\<rparr> = Inr (GenerateContentResult (Inl e))"
  shows "generateContent api p s =
    (Inl e, s\<lparr>api_calls := api_calls s @ [\<lparr>params = the_model s, prompt = p\<rparr>],
               console := console s @ [Console_error [Val (Str ''Error generating content:''), Err e]]\<rparr>)"
  using assms
  by (simp add: generateContent_def try_catch_def generateContent_try_def generateContent_catch_def
      model_generateContent_def console_error_def)

lemma generateContent_text:
  assumes "api \<lparr>params = the_model s, prompt = p\<rparr> = Inr (GenerateContentResult (Inr t))"
  shows "generateContent api p s =
    (Inr t, s\<lparr>api_calls := api_calls s @ [\<lparr>params = the_model s, prompt = p\<rparr>]\<rparr>)"
  using assms
  by (simp add: generateContent_def try_catch_def generateContent_try_def
      model_generateContent_def)

lemma generateContent_calls:
  "api_calls (snd (generateContent api p s)) = api_calls s @ [\<lparr>params = the_model s, prompt = p\<rparr>]"
  by (simp add: generateContent_def try_catch_def generateContent_try_def generateContent_catch_def
      model_generateContent_def console_error_def Let_def
      split: sum.splits prod.splits generate_result.splits)

lemma generateContent_model:
  "the_model (snd (generateContent api p s)) = the_model s"
  by (simp add: generateContent_def try_catch_def generateContent_try_def generateContent_catch_def
      model_generateContent_def console_error_def Let_def
      split: sum.splits prod.splits generate_result.splits)



section \<open>Runs of the client and of the server\<close>

lemma ui_step_review:
  assumes "\<not> succeeded ev"
  shows "review (ui_step JSON_parse ev s) = review s"
proof (cases ev)
  case (Edit c)
  then show ?thesis by (simp add: setCode_def)
next
  case (Click outcome)
  with assms obtain e where "outcome = Inl e"
    by (cases outcome) auto
  with Click show ?thesis
    by (simp add: reviewCode_rejected)
qed

lemma ui_run_review:
  "\<forall>ev \<in> set evs. \<not> succeeded ev \<Longrightarrow> review (ui_run JSON_parse evs s) = review s"
  by (induction evs arbitrary: s) (simp_all add: ui_step_review)

lemma server_step_model: "the_model (server_step x s) = the_model s"
  by (cases x) (simp_all add: generateContent_model root_handler_def)

lemma server_step_calls:
  "request \<in> set (api_calls (server_step x s)) \<Longrightarrow>
     request \<in> set (api_calls s) \<or> params request = the_model s"
  by (cases x) (auto simp: generateContent_calls root_handler_def)

lemma server_run_model: "the_model (server_run xs s) = the_model s"
  by (induction xs arbitrary: s) (simp_all add: server_step_model)

lemma server_run_calls:
  "request \<in> set (api_calls (server_run xs s)) \<Longrightarrow>
     request \<in> set (api_calls s) \<or> params request = the_model s"
proof (induction xs arbitrary: s)
  case Nil
  then show ?case by simp
next
  case (Cons x xs)
  from Cons.prems have "request \<in> set (api_calls (server_run xs (server_step x s)))"
    by simp
  then have "request \<in> set (api_calls (server_step x s))
      \<or> params request = the_model (server_step x s)"
    by (rule Cons.IH)
  then show ?case
    using server_step_calls [of request x s] by (auto simp: server_step_model)
qed

section \<open>The claims\<close>

text \<open>
  C1. For every request whose code field is a non-empty string, the review service invokes
  the generative model client exactly once, and the prompt of that one invocation contains
  the submitted code as a substring. Here on the review operation as the specification
  gives it: the run adds exactly one request to those the API has received, its prompt
  contains the code, and it carries the parameters of the model object.
\<close>

theorem ReviewCode_invokes_client_once:
  assumes "code_value \<noteq> []"
  shows "\<exists>request. api_calls (snd (ReviewCode api code_value s)) = api_calls s @ [request]
           \<and> sublist code_value (prompt request) \<and> params request = the_model s"
  by (simp add: ReviewCode_def generateContent_calls)

theorem ReviewCode_invokes_client_once_witness:
  "''function sum(){ return 1+1 }'' \<noteq> [] \<and>
   (\<exists>request. api_calls (snd (ReviewCode (\<lambda>r. Inl (JsError ''quota'' None))
        ''function sum(){ return 1+1 }'' server_init)) = [request]
      \<and> sublist ''function sum(){ return 1+1 }'' (prompt request) \<and> params request = ai_model)"
  using ReviewCode_invokes_client_once [of "''function sum(){ return 1+1 }''"
      "\<lambda>r. Inl (JsError ''quota'' None)" server_init]
  by (simp add: server_init_def)

text \<open>
  C2. For every prompt on which the API call succeeds, the review operation returns the
  text of the model exactly, with nothing applied to it.
\<close>

theorem ReviewCode_returns_model_text:
  assumes "api \<lparr>params = the_model s, prompt = code_value\<rparr> = Inr (GenerateContentResult (Inr t))"
  shows "fst (ReviewCode api code_value s) = Inr t"
  using assms by (simp add: ReviewCode_def generateContent_text)

theorem ReviewCode_returns_model_text_witness:
  "fst (ReviewCode (\<lambda>r. Inr (GenerateContentResult (Inr ''  <b>ok</b> \<newline>''))) ''x = 1'' server_init)
     = Inr ''  <b>ok</b> \<newline>''"
  using ReviewCode_returns_model_text [of "\<lambda>r. Inr (GenerateContentResult (Inr ''  <b>ok</b> \<newline>''))"
      server_init "''x = 1''" "''  <b>ok</b> \<newline>''"]
  by simp

text \<open>
  C3. For every prompt, \<^verbatim>\<open>generateContent\<close> makes exactly one attempt at the API call:
  it adds one request, the prompt as given under the parameters of the model, to those
  the API has received. It returns the generated text when the call succeeds, and throws
  the error of the call when the call is rejected or when its result has no text.
\<close>

theorem generateContent_single_attempt:
  "api_calls (snd (generateContent api p s)) = api_calls s @ [\<lparr>params = the_model s, prompt = p\<rparr>]
   \<and> length (api_calls (snd (generateContent api p s))) = Suc (length (api_calls s))
   \<and> (\<forall>t. api \<lparr>params = the_model s, prompt = p\<rparr> = Inr (GenerateContentResult (Inr t))
          \<longrightarrow> fst (generateContent api p s) = Inr t)
   \<and> (\<forall>e. api \<lparr>params = the_model s, prompt = p\<rparr> = Inl e
          \<longrightarrow> fst (generateContent api p s) = Inl e)
   \<and> (\<forall>e. api \<lparr>params = the_model s, prompt = p\<rparr> = Inr (GenerateContentResult (Inl e))
          \<longrightarrow> fst (generateContent api p s) = Inl e)"
  by (simp add: generateContent_calls generateContent_text generateContent_rejected
      generateContent_no_text)

theorem generateContent_single_attempt_witness:
  "fst (generateContent (\<lambda>r. Inr (GenerateContentResult (Inr ''fine''))) ''x'' server_init) = Inr ''fine''
   \<and> fst (generateContent (\<lambda>r. Inl (JsError ''fetch failed'' None)) ''x'' server_init)
       = Inl (JsError ''fetch failed'' None)
   \<and> fst (generateContent (\<lambda>r. Inr (GenerateContentResult (Inl (JsError ''blocked'' None)))) ''x'' server_init)
       = Inl (JsError ''blocked'' None)
   \<and> length (api_calls (snd (generateContent (\<lambda>r. Inl (JsError ''fetch failed'' None)) ''x'' server_init))) = 1"
  using generateContent_single_attempt [of "\<lambda>r. Inr (GenerateContentResult (Inr ''fine''))" "''x''" server_init]
    generateContent_single_attempt [of "\<lambda>r. Inl (JsError ''fetch failed'' None)" "''x''" server_init]
    generateContent_single_attempt [of "\<lambda>r. Inr (GenerateContentResult (Inl (JsError ''blocked'' None)))" "''x''" server_init]
  by (simp add: server_init_def)

text \<open>
  C4. For every failure of the HTTP call of \<^verbatim>\<open>reviewCode\<close>, the client logs the error
  on the console and leaves the review text at its previous value: what the component
  renders is what it rendered before the call.
\<close>

theorem reviewCode_failure_keeps_display:
  assumes "post ''http://localhost:3000/api/ai/get-review'' (ReviewRequest (code s)) = Inl e"
  shows "App_render (snd (reviewCode JSON_parse post s)) = App_render s
     \<and> code (snd (reviewCode JSON_parse post s)) = code s
     \<and> review (snd (reviewCode JSON_parse post s)) = review s
     \<and> console (snd (reviewCode JSON_parse post s)) = console s @
         [Console_log [Val (Str ''Sending code for review:''), Val (Str (code s))],
          Console_error [Val (Str ''Error reviewing code:''), Val (error_detail JSON_parse e)]]"
  using assms by (simp add: reviewCode_rejected App_render_def)

theorem reviewCode_failure_keeps_display_witness:
  "review (snd (reviewCode scalar_reading (\<lambda>url request. Inl (JsError ''Network Error'' None))
       (App_init\<lparr>review := Str ''# earlier review''\<rparr>))) = Str ''# earlier review''
   \<and> console (snd (reviewCode scalar_reading (\<lambda>url request. Inl (JsError ''Network Error'' None))
       (App_init\<lparr>review := Str ''# earlier review''\<rparr>))) =
       [Console_log [Val (Str ''Sending code for review:''),
                     Val (Str ''function sum(){\<newline>    return 1+1}'')],
        Console_error [Val (Str ''Error reviewing code:''), Val (Str ''Network Error'')]]"
  using reviewCode_failure_keeps_display [of "\<lambda>url request. Inl (JsError ''Network Error'' None)"
      "App_init\<lparr>review := Str ''# earlier review''\<rparr>" "JsError ''Network Error'' None" scalar_reading]
  by (simp add: App_init_def error_detail_def js_or_def)

text \<open>
  C5, as stated: for every successful response the review state, and so the rendered
  markdown, equals the body the review service returned. It fails for a body that is
  JSON text: the body \<^verbatim>\<open>123\<close> leaves the number 123 in the review state, not the text.
\<close>

theorem reviewCode_success_body_counterexample:
  "review (snd (reviewCode scalar_reading (\<lambda>url request. Inr \<lparr>status = 200, body = ''123''\<rparr>) App_init))
     = Number 123
   \<and> markdown_children (App_render (snd (reviewCode scalar_reading
        (\<lambda>url request. Inr \<lparr>status = 200, body = ''123''\<rparr>) App_init))) \<noteq> Str ''123''"
  by (simp add: reviewCode_resolved [where r = "\<lparr>status = 200, body = ''123''\<rparr>"]
      App_render_def data_def transformResponse_def scalar_reading_def digit_def)

text \<open>
  C5, amended. For every successful response to the HTTP call of \<^verbatim>\<open>reviewCode\<close>, the
  review state becomes \<^verbatim>\<open>response.data\<close>, and so do the children of the markdown
  element. That value is the body itself when the body is empty or is not JSON text, and
  the value \<^verbatim>\<open>JSON.parse\<close> gives for the body otherwise.
\<close>

theorem reviewCode_success_shows_data:
  assumes "post ''http://localhost:3000/api/ai/get-review'' (ReviewRequest (code s)) = Inr r"
  shows "review (snd (reviewCode JSON_parse post s)) = data JSON_parse r
     \<and> markdown_children (App_render (snd (reviewCode JSON_parse post s))) = data JSON_parse r
     \<and> (body r = [] \<or> JSON_parse (body r) = None
          \<longrightarrow> markdown_children (App_render (snd (reviewCode JSON_parse post s))) = Str (body r))
     \<and> (\<forall>v. body r \<noteq> [] \<and> JSON_parse (body r) = Some v
          \<longrightarrow> markdown_children (App_render (snd (reviewCode JSON_parse post s))) = v)"
  using assms
  by (auto simp: reviewCode_resolved App_render_def data_unparsed data_parsed)

theorem reviewCode_success_shows_data_witness:
  "markdown_children (App_render (snd (reviewCode scalar_reading
       (\<lambda>url request. Inr \<lparr>status = 200, body = ''## Issues''\<rparr>) App_init))) = Str ''## Issues''
   \<and> markdown_children (App_render (snd (reviewCode scalar_reading
       (\<lambda>url request. Inr \<lparr>status = 200, body = ''true''\<rparr>) App_init))) = Boolean True"
  using reviewCode_success_shows_data [of "\<lambda>url request. Inr \<lparr>status = 200, body = ''## Issues''\<rparr>"
      App_init "\<lparr>status = 200, body = ''## Issues''\<rparr>" scalar_reading]
    reviewCode_success_shows_data [of "\<lambda>url request. Inr \<lparr>status = 200, body = ''true''\<rparr>"
      App_init "\<lparr>status = 200, body = ''true''\<rparr>" scalar_reading]
  by (simp add: scalar_reading_def digit_def data_def transformResponse_def)

text \<open>
  C6. For every value of the editor buffer, the empty string included, \<^verbatim>\<open>reviewCode\<close>
  posts one request whose code field is that value, unchanged, whatever the call then
  settles to; there is no check before sending. The second part says the same of a
  value just typed into the editor.
\<close>

theorem reviewCode_sends_buffer:
  "posted (snd (reviewCode JSON_parse post s)) =
     posted s @ [(''http://localhost:3000/api/ai/get-review'', ReviewRequest (code s))]
   \<and> posted (ui_run JSON_parse [Edit c, Click outcome] s) =
     posted s @ [(''http://localhost:3000/api/ai/get-review'', ReviewRequest c)]"
proof -
  have sent: "posted (snd (reviewCode JSON_parse q t)) =
      posted t @ [(''http://localhost:3000/api/ai/get-review'', ReviewRequest (code t))]" for q t
    by (cases "q ''http://localhost:3000/api/ai/get-review'' (ReviewRequest (code t))")
      (simp_all add: reviewCode_rejected reviewCode_resolved)
  show ?thesis
    by (simp add: sent setCode_def)
qed

theorem reviewCode_sends_buffer_witness:
  "posted (snd (reviewCode scalar_reading
       (\<lambda>url request. Inl (JsError ''Request failed'' (Some \<lparr>status = 400, body = ''''\<rparr>)))
       (App_init\<lparr>code := ''''\<rparr>))) =
     [(''http://localhost:3000/api/ai/get-review'', ReviewRequest '''')]
   \<and> posted (ui_run scalar_reading
        [Edit ''function ( {'', Click (Inr \<lparr>status = 200, body = ''ok''\<rparr>)] App_init) =
     [(''http://localhost:3000/api/ai/get-review'', ReviewRequest ''function ( {'')]"
  using reviewCode_sends_buffer [of scalar_reading
      "\<lambda>url request. Inl (JsError ''Request failed'' (Some \<lparr>status = 400, body = ''''\<rparr>))"
      "App_init\<lparr>code := ''''\<rparr>" "''function ( {''" "Inr \<lparr>status = 200, body = ''ok''\<rparr>"]
    reviewCode_sends_buffer [of scalar_reading "\<lambda>url request. Inr \<lparr>status = 200, body = ''ok''\<rparr>"
      App_init "''function ( {''" "Inr \<lparr>status = 200, body = ''ok''\<rparr>"]
  by (simp add: App_init_def)

text \<open>
  C7. The prompt template is one constant of the server process that no operation
  writes: after any run of the operations from the initial state the model object is the
  one the module created, and every request the API has received carries the same
  template as its system instruction.
\<close>

theorem template_immutable:
  "the_model (server_run xs server_init) = ai_model
   \<and> (\<forall>request \<in> set (api_calls (server_run xs server_init)).
         systemInstruction (params request) = prompt_template)"
proof
  show "the_model (server_run xs server_init) = ai_model"
    by (simp add: server_run_model server_init_def)
next
  show "\<forall>request \<in> set (api_calls (server_run xs server_init)).
      systemInstruction (params request) = prompt_template"
  proof
    fix request
    assume "request \<in> set (api_calls (server_run xs server_init))"
    then have "request \<in> set (api_calls server_init) \<or> params request = the_model server_init"
      by (rule server_run_calls)
    then have "params request = ai_model"
      by (simp add: server_init_def)
    then show "systemInstruction (params request) = prompt_template"
      by (simp add: ai_model_def)
  qed
qed

theorem template_immutable_witness:
  "the_model (server_run
       [Generate (\<lambda>r. Inl (JsError ''quota'' None)) ''a'',
        Root \<lparr>req_method = GET, req_path = ''/'', json_content = False, raw_body = None\<rparr> None,
        Generate (\<lambda>r. Inr (GenerateContentResult (Inr ''ok''))) ''b''] server_init) = ai_model
   \<and> map prompt (api_calls (server_run
       [Generate (\<lambda>r. Inl (JsError ''quota'' None)) ''a'',
        Root \<lparr>req_method = GET, req_path = ''/'', json_content = False, raw_body = None\<rparr> None,
        Generate (\<lambda>r. Inr (GenerateContentResult (Inr ''ok''))) ''b''] server_init)) = [''a'', ''b'']
   \<and> map (\<lambda>request. systemInstruction (params request)) (api_calls (server_run
       [Generate (\<lambda>r. Inl (JsError ''quota'' None)) ''a'',
        Root \<lparr>req_method = GET, req_path = ''/'', json_content = False, raw_body = None\<rparr> None,
        Generate (\<lambda>r. Inr (GenerateContentResult (Inr ''ok''))) ''b''] server_init))
       = [prompt_template, prompt_template]"
  using template_immutable [of "[Generate (\<lambda>r. Inl (JsError ''quota'' None)) ''a'',
        Root \<lparr>req_method = GET, req_path = ''/'', json_content = False, raw_body = None\<rparr> None,
        Generate (\<lambda>r. Inr (GenerateContentResult (Inr ''ok''))) ''b'']"]
  by (simp add: generateContent_calls root_handler_def server_init_def)




text \<open>
  C9. \<^verbatim>\<open>reviewCode\<close> never throws: whatever the HTTP call settles to, the function
  returns normally.
\<close>

theorem reviewCode_completes:
  "fst (reviewCode JSON_parse post s) = Inr ()"
  by (cases "post ''http://localhost:3000/api/ai/get-review'' (ReviewRequest (code s))")
    (simp_all add: reviewCode_rejected reviewCode_resolved)

theorem reviewCode_completes_witness:
  "fst (reviewCode scalar_reading (\<lambda>url request. Inl (JsError ''Request failed with status code 500''
       (Some \<lparr>status = 500, body = ''Internal Server Error''\<rparr>))) App_init) = Inr ()
   \<and> fst (reviewCode scalar_reading (\<lambda>url request. Inr \<lparr>status = 200, body = ''ok''\<rparr>) App_init) = Inr ()"
  using reviewCode_completes [of scalar_reading "\<lambda>url request. Inl (JsError ''Request failed with status code 500''
       (Some \<lparr>status = 500, body = ''Internal Server Error''\<rparr>))" App_init]
    reviewCode_completes [of scalar_reading "\<lambda>url request. Inr \<lparr>status = 200, body = ''ok''\<rparr>" App_init]
  by simp

text \<open>
  C10. The review state starts as the empty string, and as long as no review request
  has succeeded, whatever was typed and however many requests failed, the markdown
  element shows the empty string.
\<close>

theorem review_initially_empty:
  assumes "\<forall>ev \<in> set evs. \<not> succeeded ev"
  shows "review App_init = Str []
     \<and> markdown_children (App_render App_init) = Str []
     \<and> markdown_children (App_render (ui_run JSON_parse evs App_init)) = Str []"
  using assms by (simp add: App_render_def ui_run_review) (simp add: App_init_def)

theorem review_initially_empty_witness:
  "\<not> succeeded (Edit ''let x'')
   \<and> \<not> succeeded (Click (Inl (JsError ''Network Error'' None)))
   \<and> markdown_children (App_render (ui_run scalar_reading
        [Edit ''let x'', Click (Inl (JsError ''Network Error'' None))] App_init)) = Str []"
  using review_initially_empty [of "[Edit ''let x'', Click (Inl (JsError ''Network Error'' None))]"
      scalar_reading]
  by simp

end
